theory Spec2Isabelle
  imports Complex_Main
begin

section \<open>Python values and the process state\<close>

text \<open>
  A Python \<^verbatim>\<open>str\<close> is the list of its code points, so that a lone surrogate such as
  \<^verbatim>\<open>'\ud800'\<close> is a \<^verbatim>\<open>str\<close> like any other; a \<^verbatim>\<open>bytes\<close> is the list of its bytes.
  \<open>ascii\<close> writes the \<^verbatim>\<open>str\<close> (or the \<^verbatim>\<open>bytes\<close>) whose elements are the codes of the
  characters of a literal.
\<close>

type_synonym str = "nat list"

type_synonym bytes = "nat list"

definition ascii :: "string \<Rightarrow> nat list" where
  "ascii cs = map of_char cs"

text \<open>
  A Python \<^verbatim>\<open>dict[str, str]\<close> is an association list read through \<open>map_of\<close>: the keys
  of the dict are the first components, and the value of a key is the one \<open>map_of\<close>
  finds. The dict is empty exactly when the list is.
\<close>

type_synonym dict = "(str \<times> str) list"

text \<open>
  \<^verbatim>\<open>KeyError\<close> is what indexing a mapping raises, \<^verbatim>\<open>UnicodeEncodeError\<close> what encoding a
  \<^verbatim>\<open>str\<close> raises. \<^verbatim>\<open>InvalidConfigValue\<close> is the error kind the specification names for a
  configuration value that cannot be converted to its typed form.
\<close>

datatype error = KeyError str | UnicodeEncodeError str | InvalidConfigValue str

text \<open>\<^verbatim>\<open>bool(d)\<close>: a dict is truthy when it has at least one entry.\<close>

definition dict_bool :: "dict \<Rightarrow> bool" where
  "dict_bool d = (d \<noteq> [])"

text \<open>\<^verbatim>\<open>k in d\<close>.\<close>

definition dict_contains :: "str \<Rightarrow> dict \<Rightarrow> bool" where
  "dict_contains k d = (map_of d k \<noteq> None)"

text \<open>\<^verbatim>\<open>d[k]\<close>, which raises \<^verbatim>\<open>KeyError\<close> on a missing key.\<close>

definition dict_getitem :: "dict \<Rightarrow> str \<Rightarrow> error + str" where
  "dict_getitem d k = (case map_of d k of None \<Rightarrow> Inl (KeyError k) | Some v \<Rightarrow> Inr v)"

subsection \<open>\<^verbatim>\<open>os.environ\<close>\<close>

text \<open>
  \<^verbatim>\<open>os.environ\<close> is an object of the standard library's class \<^verbatim>\<open>os._Environ\<close>. It holds
  a dict \<^verbatim>\<open>_data\<close> from encoded keys to encoded values and the functions \<^verbatim>\<open>encodekey\<close> and
  \<^verbatim>\<open>decodevalue\<close>, which on POSIX encode and decode with the filesystem encoding of the
  process and the error handler \<^verbatim>\<open>surrogateescape\<close>. \<^verbatim>\<open>encodekey\<close> raises
  \<^verbatim>\<open>UnicodeEncodeError\<close> on a \<^verbatim>\<open>str\<close> the encoding cannot encode (\<open>None\<close> here);
  \<^verbatim>\<open>decodevalue\<close> decodes every value. On Windows \<^verbatim>\<open>encodekey\<close> upper-cases the key and
  never fails. The filesystem encoding is a setting of the process, so both functions
  are part of the state.
\<close>

record Environ =
  environ_data :: "(bytes \<times> bytes) list"
  encodekey :: "str \<Rightarrow> bytes option"
  decodevalue :: "bytes \<Rightarrow> str"

text \<open>
  \<^verbatim>\<open>
  def __getitem__(self, key):
      try:
          value = self._data[self.encodekey(key)]
      except KeyError:
          raise KeyError(key) from None
      return self.decodevalue(value)
  \<close>
\<close>

definition Environ_getitem :: "Environ \<Rightarrow> str \<Rightarrow> error + str" where
  "Environ_getitem e key =
     (case encodekey e key of
        None \<Rightarrow> Inl (UnicodeEncodeError key)
      | Some k \<Rightarrow>
          (case map_of (environ_data e) k of
             None \<Rightarrow> Inl (KeyError key)
           | Some v \<Rightarrow> Inr (decodevalue e v)))"

text \<open>
  \<^verbatim>\<open>get\<close> is inherited from \<^verbatim>\<open>Mapping\<close> and catches \<^verbatim>\<open>KeyError\<close> only:
  \<^verbatim>\<open>
  def get(self, key, default=None):
      try:
          return self[key]
      except KeyError:
          return default
  \<close>
\<close>

definition Environ_get :: "Environ \<Rightarrow> str \<Rightarrow> str \<Rightarrow> error + str" where
  "Environ_get e key dflt =
     (case Environ_getitem e key of
        Inr v \<Rightarrow> Inr v
      | Inl err \<Rightarrow> (case err of KeyError k \<Rightarrow> Inr dflt | _ \<Rightarrow> Inl err))"

text \<open>
  Dict objects live in a store and are passed by reference, as in Python; every address
  holds a dict (Python has no dangling reference). \<open>os_environ\<close> is the process-wide
  \<^verbatim>\<open>os.environ\<close>. The record is extensible: its \<open>more\<close> part stands for all other
  process-wide state.
\<close>

type_synonym addr = nat

record proc =
  os_environ :: Environ
  heap :: "addr \<Rightarrow> dict"
  next_addr :: addr

section \<open>\<^verbatim>\<open>_internal/env.py\<close>\<close>

text \<open>
  \<^verbatim>\<open>
  def resolve_env(key, options_env, default):
      if options_env and key in options_env:
          return options_env[key]
      return os.environ.get(key, default)
  \<close>
  \<open>options_env\<close> is \<^verbatim>\<open>None\<close> or a reference to a dict. \<^verbatim>\<open>options_env and \<dots>\<close> is falsy
  for \<^verbatim>\<open>None\<close> and for an empty dict. The function returns its result together with the
  process state it leaves behind.
\<close>

definition resolve_env ::
  "str \<Rightarrow> addr option \<Rightarrow> str \<Rightarrow> 'a proc_scheme \<Rightarrow> (error + str) \<times> 'a proc_scheme" where
  "resolve_env key options_env dflt s =
     (case options_env of
        None \<Rightarrow> (Environ_get (os_environ s) key dflt, s)
      | Some a \<Rightarrow>
          if dict_bool (heap s a) \<and> dict_contains key (heap s a)
          then (dict_getitem (heap s a) key, s)
          else (Environ_get (os_environ s) key dflt, s))"

subsection \<open>Concrete inputs\<close>

text \<open>
  The codec \<^verbatim>\<open>ascii\<close> with \<^verbatim>\<open>surrogateescape\<close>: a code point below 128 is its own byte, a
  surrogate from U+DC80 to U+DCFF stands for the byte it escapes, and no other code
  point can be encoded; a byte from 128 on is decoded to the surrogate that escapes it.
\<close>

definition ascii_encodekey :: "str \<Rightarrow> bytes option" where
  "ascii_encodekey key =
     (if list_all (\<lambda>c. c < 128 \<or> (0xDC80 \<le> c \<and> c \<le> 0xDCFF)) key
      then Some (map (\<lambda>c. if c < 128 then c else c - 0xDC00) key)
      else None)"

definition ascii_decodevalue :: "bytes \<Rightarrow> str" where
  "ascii_decodevalue v = map (\<lambda>b. if b < 128 then b else 0xDC00 + b) v"

definition ascii_environ :: "(bytes \<times> bytes) list \<Rightarrow> Environ" where
  "ascii_environ d =
     \<lparr>environ_data = d, encodekey = ascii_encodekey, decodevalue = ascii_decodevalue\<rparr>"

text \<open>
  The codec \<^verbatim>\<open>latin-1\<close> with \<^verbatim>\<open>surrogateescape\<close>: a code point below 256 is its own byte.
\<close>

definition latin1_encodekey :: "str \<Rightarrow> bytes option" where
  "latin1_encodekey key =
     (if list_all (\<lambda>c. c < 256 \<or> (0xDC80 \<le> c \<and> c \<le> 0xDCFF)) key
      then Some (map (\<lambda>c. if c < 256 then c else c - 0xDC00) key)
      else None)"

definition latin1_environ :: "(bytes \<times> bytes) list \<Rightarrow> Environ" where
  "latin1_environ d =
     \<lparr>environ_data = d, encodekey = latin1_encodekey, decodevalue = (\<lambda>v. v)\<rparr>"

definition no_dicts :: "addr \<Rightarrow> dict" where
  "no_dicts = (\<lambda>a. [])"

definition one_dict :: "dict \<Rightarrow> addr \<Rightarrow> dict" where
  "one_dict d = (\<lambda>a. if a = 0 then d else [])"

definition caller_state :: proc where
  "caller_state =
     \<lparr>os_environ =
        ascii_environ [(ascii ''CLAUDE_CODE_STREAM_CLOSE_TIMEOUT'', ascii ''90000'')],
      heap = one_dict [(ascii ''SOME_OTHER_VAR'', ascii ''value''),
                       (ascii ''ANTHROPIC_API_KEY'', ascii ''env-dict-key'')],
      next_addr = 1\<rparr>"

section \<open>\<^verbatim>\<open>ClaudeAgentOptions\<close>\<close>

text \<open>
  Modelled from the spec: the class \<^verbatim>\<open>ClaudeAgentOptions\<close> (the specification's
  OptionsConfig). Its module, \<^verbatim>\<open>claude_agent_sdk/types.py\<close>, is not among the sources; only
  the tests that construct it are. The fields are those of the specification's table:
  credential, endpoint override, isolation flag, per-instance environment overrides and
  the output token limit, under the names the tests use. \<open>env\<close> is a reference to the
  dict the instance owns.
\<close>

record ClaudeAgentOptions =
  api_key :: "str option"
  base_url :: "str option"
  isolated :: bool
  env :: addr
  max_output_tokens :: "int option"

text \<open>
  Modelled from the spec: the allocation of a dict object, which the copy at construction
  needs. The new object takes the next unused address.
\<close>

definition new_dict :: "dict \<Rightarrow> 'a proc_scheme \<Rightarrow> addr \<times> 'a proc_scheme" where
  "new_dict d s =
     (next_addr s, s\<lparr>heap := (heap s)(next_addr s := d), next_addr := Suc (next_addr s)\<rparr>)"

text \<open>
  Modelled from the spec: the constructor of \<^verbatim>\<open>ClaudeAgentOptions\<close>, absent with
  \<^verbatim>\<open>types.py\<close>. The specification: every option has a default (credential, endpoint and
  token limit absent, \<open>isolated\<close> false, the overrides an empty mapping); construction
  consults no ambient state; a caller-supplied mapping is copied into storage the
  instance owns, the caller's reference is not kept. The values of the mapping are
  strings, so the copy of the list of entries is a deep copy. An omitted argument is
  \<open>None\<close> (for \<open>isolated\<close> the caller passes \<open>False\<close>).
\<close>

definition ClaudeAgentOptions_init ::
  "str option \<Rightarrow> str option \<Rightarrow> bool \<Rightarrow> addr option \<Rightarrow> int option \<Rightarrow>
   'a proc_scheme \<Rightarrow> ClaudeAgentOptions \<times> 'a proc_scheme" where
  "ClaudeAgentOptions_init api_key_arg base_url_arg isolated_arg env_arg max_output_tokens_arg s =
     (case new_dict (case env_arg of None \<Rightarrow> [] | Some a \<Rightarrow> heap s a) s of
        (r, s') \<Rightarrow>
          (\<lparr>api_key = api_key_arg, base_url = base_url_arg, isolated = isolated_arg,
            env = r, max_output_tokens = max_output_tokens_arg\<rparr>, s'))"

text \<open>
  An in-place mutation of the dict at an address (\<^verbatim>\<open>d[k] = v\<close>, \<^verbatim>\<open>del d[k]\<close>,
  \<^verbatim>\<open>d.clear()\<close>, \<^verbatim>\<open>d.update(\<dots>)\<close>) leaves that object holding some new content.
\<close>

definition mutate_dict :: "addr \<Rightarrow> dict \<Rightarrow> 'a proc_scheme \<Rightarrow> 'a proc_scheme" where
  "mutate_dict a d s = s\<lparr>heap := (heap s)(a := d)\<rparr>"

section \<open>The stream close timeout\<close>

text \<open>
  Modelled from the spec: the resolution of the stream close timeout, done in
  \<^verbatim>\<open>claude_agent_sdk/_internal/query.py\<close>, which is not among the sources. The
  specification: an explicit value given at construction wins; otherwise the variable
  \<^verbatim>\<open>CLAUDE_CODE_STREAM_CLOSE_TIMEOUT\<close> is resolved by \<open>resolve_env\<close>, with the compiled-in
  default of 60 seconds, read as milliseconds and converted to seconds; a value that is
  not numeric is the error \<^verbatim>\<open>InvalidConfigValue\<close>. The conversion of a string to a
  number is the parameter \<open>to_number\<close>, since the specification does not say which strings
  are numeric. Durations are exact rationals.
\<close>

definition resolve_stream_close_timeout ::
  "(str \<Rightarrow> rat option) \<Rightarrow> rat option \<Rightarrow> addr option \<Rightarrow> 'a proc_scheme \<Rightarrow> error + rat" where
  "resolve_stream_close_timeout to_number stream_close_timeout options_env s =
     (case stream_close_timeout of
        Some t \<Rightarrow> Inr t
      | None \<Rightarrow>
          (case fst (resolve_env (ascii ''CLAUDE_CODE_STREAM_CLOSE_TIMEOUT'') options_env
                       (ascii ''60000'') s) of
             Inl e \<Rightarrow> Inl e
           | Inr str \<Rightarrow>
               (case to_number str of
                  None \<Rightarrow> Inl (InvalidConfigValue str)
                | Some ms \<Rightarrow> Inr (ms / 1000))))"

text \<open>A conversion for concrete inputs: the non-empty strings of decimal digits.\<close>

definition digit :: "nat \<Rightarrow> nat option" where
  "digit c = (if 48 \<le> c \<and> c \<le> 57 then Some (c - 48) else None)"

fun digits_value :: "nat \<Rightarrow> str \<Rightarrow> nat option" where
  "digits_value acc [] = Some acc"
| "digits_value acc (c # cs) =
     (case digit c of None \<Rightarrow> None | Some d \<Rightarrow> digits_value (10 * acc + d) cs)"

definition decimal_number :: "str \<Rightarrow> rat option" where
  "decimal_number str = (if str = [] then None else map_option of_nat (digits_value 0 str))"

section \<open>Properties of \<open>resolve_env\<close>\<close>

lemma dict_contains_nonempty: "dict_contains k d \<Longrightarrow> dict_bool d"
  by (cases d) (simp_all add: dict_contains_def dict_bool_def)

text \<open>
  C1, as stated: for every key, \<open>resolve_env\<close> returns the override map's value, else the
  value of \<^verbatim>\<open>os.environ\<close>, else the default. For the key \<^verbatim>\<open>'\ud800'\<close>, which is in neither
  the override map nor \<^verbatim>\<open>os.environ\<close>, the call does not return the default:
  \<^verbatim>\<open>os.environ.get\<close> encodes the key first and raises \<^verbatim>\<open>UnicodeEncodeError\<close> (a lone
  surrogate below U+DC80 can be encoded neither in ASCII nor in UTF-8).
\<close>

theorem resolve_env_unencodable_key:
  "fst (resolve_env [0xD800] (Some 0) (ascii ''default_val'')
         \<lparr>os_environ = ascii_environ [],
          heap = one_dict [(ascii ''OTHER_VAR'', ascii ''irrelevant'')], next_addr = 1\<rparr>)
   = Inl (UnicodeEncodeError [0xD800])"
  by (simp add: resolve_env_def Environ_get_def Environ_getitem_def ascii_environ_def
      ascii_encodekey_def one_dict_def dict_contains_def ascii_def)

text \<open>
  C1, amended. For every key, override map, default and process, \<open>resolve_env\<close> returns
  the override map's value for the key whenever the override map is not \<^verbatim>\<open>None\<close> and has
  the key (also when that value is the empty string). Otherwise, when the key can be
  encoded in the filesystem encoding of the process, it returns the decoded value that
  \<^verbatim>\<open>os.environ\<close> holds under the encoded key whenever there is one, and otherwise the
  default. Presence is key membership, never the truthiness of the value.
\<close>

theorem resolve_env_precedence:
  "(options_env = Some a \<and> map_of (heap s a) key = Some v \<longrightarrow>
      fst (resolve_env key options_env dflt s) = Inr v) \<and>
   ((options_env = None \<or> (options_env = Some a \<and> map_of (heap s a) key = None)) \<and>
    encodekey (os_environ s) key = Some k \<and>
    map_of (environ_data (os_environ s)) k = Some w \<longrightarrow>
      fst (resolve_env key options_env dflt s) = Inr (decodevalue (os_environ s) w)) \<and>
   ((options_env = None \<or> (options_env = Some a \<and> map_of (heap s a) key = None)) \<and>
    encodekey (os_environ s) key = Some k \<and>
    map_of (environ_data (os_environ s)) k = None \<longrightarrow>
      fst (resolve_env key options_env dflt s) = Inr dflt)"
proof (intro conjI impI)
  assume h: "options_env = Some a \<and> map_of (heap s a) key = Some v"
  then have "dict_contains key (heap s a)"
    by (simp add: dict_contains_def)
  with h show "fst (resolve_env key options_env dflt s) = Inr v"
    by (simp add: resolve_env_def dict_getitem_def dict_contains_nonempty)
next
  assume "(options_env = None \<or> (options_env = Some a \<and> map_of (heap s a) key = None)) \<and>
    encodekey (os_environ s) key = Some k \<and>
    map_of (environ_data (os_environ s)) k = Some w"
  then show "fst (resolve_env key options_env dflt s) = Inr (decodevalue (os_environ s) w)"
    by (auto simp: resolve_env_def Environ_get_def Environ_getitem_def dict_contains_def)
next
  assume "(options_env = None \<or> (options_env = Some a \<and> map_of (heap s a) key = None)) \<and>
    encodekey (os_environ s) key = Some k \<and>
    map_of (environ_data (os_environ s)) k = None"
  then show "fst (resolve_env key options_env dflt s) = Inr dflt"
    by (auto simp: resolve_env_def Environ_get_def Environ_getitem_def dict_contains_def)
qed

theorem resolve_env_precedence_witness:
  "fst (resolve_env (ascii ''MY_VAR'') (Some 0) (ascii ''default_val'')
         \<lparr>os_environ = ascii_environ [(ascii ''MY_VAR'', ascii ''from_environ'')],
          heap = one_dict [(ascii ''MY_VAR'', [])], next_addr = 1\<rparr>) = Inr [] \<and>
   fst (resolve_env (ascii ''MY_VAR'') (Some 0) (ascii ''default_val'')
         \<lparr>os_environ = ascii_environ [(ascii ''MY_VAR'', ascii ''from_environ'')],
          heap = one_dict [(ascii ''OTHER_VAR'', ascii ''irrelevant'')], next_addr = 1\<rparr>)
     = Inr (ascii ''from_environ'') \<and>
   fst (resolve_env (ascii ''MY_VAR'') None (ascii ''default_val'')
         \<lparr>os_environ = ascii_environ [], heap = no_dicts, next_addr = 0\<rparr>)
     = Inr (ascii ''default_val'')"
  using
    resolve_env_precedence [of "Some 0" 0
      "\<lparr>os_environ = ascii_environ [(ascii ''MY_VAR'', ascii ''from_environ'')],
        heap = one_dict [(ascii ''MY_VAR'', [])], next_addr = 1\<rparr>" "ascii ''MY_VAR''" "[]"
      "ascii ''default_val''" "ascii ''MY_VAR''" "ascii ''from_environ''"]
    resolve_env_precedence [of "Some 0" 0
      "\<lparr>os_environ = ascii_environ [(ascii ''MY_VAR'', ascii ''from_environ'')],
        heap = one_dict [(ascii ''OTHER_VAR'', ascii ''irrelevant'')], next_addr = 1\<rparr>"
      "ascii ''MY_VAR''" "[]"
      "ascii ''default_val''" "ascii ''MY_VAR''" "ascii ''from_environ''"]
    resolve_env_precedence [of None 0
      "\<lparr>os_environ = ascii_environ [], heap = no_dicts, next_addr = 0\<rparr>" "ascii ''MY_VAR''" "[]"
      "ascii ''default_val''" "ascii ''MY_VAR''" "ascii ''from_environ''"]
  by (simp add: one_dict_def no_dicts_def ascii_environ_def ascii_encodekey_def
      ascii_decodevalue_def ascii_def)

text \<open>
  C2, as stated: the result of \<open>resolve_env\<close> depends only on its explicitly passed
  arguments, the ambient environment being one of them. The function has three
  parameters (key, options_env, default) and reads \<^verbatim>\<open>os.environ\<close> from the process: the
  same three arguments give different results in two processes whose \<^verbatim>\<open>os.environ\<close>
  differ.
\<close>

theorem resolve_env_reads_process_environ:
  "fst (resolve_env (ascii ''MY_VAR'') None (ascii ''default_val'')
         \<lparr>os_environ = ascii_environ [(ascii ''MY_VAR'', ascii ''from_environ'')],
          heap = no_dicts, next_addr = 0\<rparr>)
   \<noteq> fst (resolve_env (ascii ''MY_VAR'') None (ascii ''default_val'')
         \<lparr>os_environ = ascii_environ [], heap = no_dicts, next_addr = 0\<rparr>)"
  by (simp add: resolve_env_def Environ_get_def Environ_getitem_def ascii_environ_def
      ascii_encodekey_def ascii_decodevalue_def ascii_def)

text \<open>
  The filesystem encoding of the process matters as well: with the same content of
  \<^verbatim>\<open>os.environ\<close>, the key \<^verbatim>\<open>'\xe9'\<close> raises where the encoding is ASCII and falls through
  to the default where it is Latin-1.
\<close>

lemma resolve_env_reads_filesystem_encoding:
  "fst (resolve_env [0xE9] None (ascii ''default_val'')
         \<lparr>os_environ = ascii_environ [], heap = no_dicts, next_addr = 0\<rparr>)
     = Inl (UnicodeEncodeError [0xE9]) \<and>
   fst (resolve_env [0xE9] None (ascii ''default_val'')
         \<lparr>os_environ = latin1_environ [], heap = no_dicts, next_addr = 0\<rparr>)
     = Inr (ascii ''default_val'')"
  by (simp add: resolve_env_def Environ_get_def Environ_getitem_def ascii_environ_def
      latin1_environ_def ascii_encodekey_def latin1_encodekey_def)

text \<open>
  C2, amended. The result of \<open>resolve_env\<close> depends only on the key, the content of the
  override map (or its being \<^verbatim>\<open>None\<close>), the default, the content of the process-wide
  \<^verbatim>\<open>os.environ\<close> at the call, and the filesystem encoding with which \<^verbatim>\<open>os.environ\<close>
  encodes the key and decodes the value: two calls that agree on these return the same
  value, whatever the rest of the two process states is. Content is what the mappings
  hold for each key, not the order of their entries.
\<close>

theorem resolve_env_determined:
  fixes s1 :: "'a proc_scheme" and s2 :: "'b proc_scheme"
  assumes data: "map_of (environ_data (os_environ s1)) = map_of (environ_data (os_environ s2))"
    and enc: "encodekey (os_environ s1) = encodekey (os_environ s2)"
    and dec: "decodevalue (os_environ s1) = decodevalue (os_environ s2)"
    and ovr: "map_option (\<lambda>a. map_of (heap s1 a)) options_env1 =
              map_option (\<lambda>a. map_of (heap s2 a)) options_env2"
  shows "fst (resolve_env key options_env1 dflt s1) = fst (resolve_env key options_env2 dflt s2)"
proof -
  have amb: "Environ_get (os_environ s1) key dflt = Environ_get (os_environ s2) key dflt"
    unfolding Environ_get_def Environ_getitem_def data enc dec ..
  show ?thesis
  proof (cases options_env1)
    case None
    with ovr have "options_env2 = None" by simp
    with None amb show ?thesis by (simp add: resolve_env_def)
  next
    case (Some a1)
    with ovr obtain a2 where a2: "options_env2 = Some a2"
      and m: "map_of (heap s1 a1) = map_of (heap s2 a2)"
      by (cases options_env2) auto
    have c: "dict_contains key (heap s1 a1) = dict_contains key (heap s2 a2)"
      by (simp add: dict_contains_def m)
    have g: "dict_getitem (heap s1 a1) key = dict_getitem (heap s2 a2) key"
      by (simp add: dict_getitem_def m)
    show ?thesis
    proof (cases "dict_contains key (heap s1 a1)")
      case True
      with c have "dict_contains key (heap s2 a2)" by simp
      with True Some a2 g show ?thesis
        by (simp add: resolve_env_def dict_contains_nonempty)
    next
      case False
      with c have "\<not> dict_contains key (heap s2 a2)" by simp
      with False Some a2 amb show ?thesis
        by (simp add: resolve_env_def)
    qed
  qed
qed

theorem resolve_env_determined_witness:
  "fst (resolve_env (ascii ''MY_VAR'') (Some 0) (ascii ''default_val'')
         \<lparr>os_environ = ascii_environ [(ascii ''MY_VAR'', ascii ''from_environ''),
                                      (ascii ''HOME'', ascii ''/root'')],
          heap = one_dict [(ascii ''OTHER_VAR'', ascii ''irrelevant'')], next_addr = 1\<rparr>)
   = fst (resolve_env (ascii ''MY_VAR'') (Some 3) (ascii ''default_val'')
         \<lparr>os_environ = ascii_environ [(ascii ''HOME'', ascii ''/root''),
                                      (ascii ''MY_VAR'', ascii ''from_environ'')],
          heap = (one_dict [(ascii ''MY_VAR'', ascii ''elsewhere'')])
                   (3 := [(ascii ''OTHER_VAR'', ascii ''irrelevant'')]),
          next_addr = 7\<rparr>)"
  by (rule resolve_env_determined)
     (simp_all add: one_dict_def ascii_environ_def fun_eq_iff ascii_def)

text \<open>
  C3. For every key, ambient environment and default, \<open>resolve_env\<close> with \<^verbatim>\<open>None\<close> for the
  override map returns what it returns with an empty override map.
\<close>

theorem resolve_env_None_empty:
  "heap s a = [] \<Longrightarrow> resolve_env key None dflt s = resolve_env key (Some a) dflt s"
  by (simp add: resolve_env_def dict_bool_def)

theorem resolve_env_None_empty_witness:
  "resolve_env (ascii ''MY_VAR'') None (ascii ''default_val'')
     \<lparr>os_environ = ascii_environ [(ascii ''MY_VAR'', ascii ''from_environ'')],
      heap = no_dicts, next_addr = 1\<rparr>
   = resolve_env (ascii ''MY_VAR'') (Some 0) (ascii ''default_val'')
     \<lparr>os_environ = ascii_environ [(ascii ''MY_VAR'', ascii ''from_environ'')],
      heap = no_dicts, next_addr = 1\<rparr>"
  by (rule resolve_env_None_empty) (simp add: no_dicts_def)

text \<open>
  C4, as stated: \<open>resolve_env\<close> never raises, for any input. The call
  \<^verbatim>\<open>resolve_env('\ud800', None, 'd')\<close> raises \<^verbatim>\<open>UnicodeEncodeError\<close>: \<^verbatim>\<open>os.environ.get\<close>
  catches \<^verbatim>\<open>KeyError\<close> only.
\<close>

theorem resolve_env_raises:
  "fst (resolve_env [0xD800] None (ascii ''d'')
         \<lparr>os_environ = ascii_environ [], heap = no_dicts, next_addr = 0\<rparr>)
   = Inl (UnicodeEncodeError [0xD800])"
  by (simp add: resolve_env_def Environ_get_def Environ_getitem_def ascii_environ_def
      ascii_encodekey_def)

text \<open>
  C4, amended. \<open>resolve_env\<close> does not raise for a key that the override map holds or
  that can be encoded in the filesystem encoding of the process: for every such key,
  override map (also \<^verbatim>\<open>None\<close>), \<^verbatim>\<open>os.environ\<close> and default it returns a string, and when
  the key is in neither source that string is the default.
\<close>

theorem resolve_env_never_raises:
  "((\<exists>a. options_env = Some a \<and> dict_contains key (heap s a)) \<or>
    encodekey (os_environ s) key \<noteq> None \<longrightarrow>
      (\<exists>v. fst (resolve_env key options_env dflt s) = Inr v)) \<and>
   ((options_env = None \<or> (\<exists>a. options_env = Some a \<and> \<not> dict_contains key (heap s a))) \<and>
    (\<exists>k. encodekey (os_environ s) key = Some k \<and>
         map_of (environ_data (os_environ s)) k = None) \<longrightarrow>
      fst (resolve_env key options_env dflt s) = Inr dflt)"
proof (intro conjI impI)
  assume h: "(\<exists>a. options_env = Some a \<and> dict_contains key (heap s a)) \<or>
    encodekey (os_environ s) key \<noteq> None"
  have amb: "encodekey (os_environ s) key \<noteq> None \<Longrightarrow>
      \<exists>v. Environ_get (os_environ s) key dflt = Inr v"
    by (auto simp: Environ_get_def Environ_getitem_def split: option.splits)
  show "\<exists>v. fst (resolve_env key options_env dflt s) = Inr v"
  proof (cases options_env)
    case None
    with h amb show ?thesis by (simp add: resolve_env_def)
  next
    case (Some a)
    show ?thesis
    proof (cases "dict_contains key (heap s a)")
      case True
      with Some show ?thesis
        by (auto simp: resolve_env_def dict_getitem_def dict_contains_def
            dict_contains_nonempty [OF True])
    next
      case False
      with Some h amb show ?thesis by (simp add: resolve_env_def)
    qed
  qed
next
  assume "(options_env = None \<or> (\<exists>a. options_env = Some a \<and> \<not> dict_contains key (heap s a))) \<and>
    (\<exists>k. encodekey (os_environ s) key = Some k \<and>
         map_of (environ_data (os_environ s)) k = None)"
  then show "fst (resolve_env key options_env dflt s) = Inr dflt"
    by (auto simp: resolve_env_def Environ_get_def Environ_getitem_def)
qed

theorem resolve_env_never_raises_witness:
  "fst (resolve_env (ascii ''MY_VAR'') (Some 0) (ascii ''default_val'')
         \<lparr>os_environ = ascii_environ [(ascii ''HOME'', ascii ''/root'')],
          heap = one_dict [(ascii ''OTHER_VAR'', ascii ''irrelevant'')], next_addr = 1\<rparr>)
     = Inr (ascii ''default_val'')"
  using resolve_env_never_raises [of "Some 0" "ascii ''MY_VAR''"
      "\<lparr>os_environ = ascii_environ [(ascii ''HOME'', ascii ''/root'')],
        heap = one_dict [(ascii ''OTHER_VAR'', ascii ''irrelevant'')], next_addr = 1\<rparr>"
      "ascii ''default_val''"]
  by (simp add: one_dict_def dict_contains_def ascii_environ_def ascii_encodekey_def ascii_def)

text \<open>
  C5. A call of \<open>resolve_env\<close> has no side effect: the process state after the call is the
  state before it, so the override map and every other dict, \<^verbatim>\<open>os.environ\<close> and all
  other process-wide state are unchanged.
\<close>

theorem resolve_env_no_side_effect:
  "snd (resolve_env key options_env dflt s) = s \<and>
   heap (snd (resolve_env key options_env dflt s)) = heap s \<and>
   os_environ (snd (resolve_env key options_env dflt s)) = os_environ s \<and>
   proc.more (snd (resolve_env key options_env dflt s)) = proc.more s"
proof -
  have "snd (resolve_env key options_env dflt s) = s"
    by (cases options_env) (simp_all add: resolve_env_def)
  then show ?thesis by simp
qed

section \<open>Properties of \<^verbatim>\<open>ClaudeAgentOptions\<close>\<close>


text \<open>
  C7. Two \<^verbatim>\<open>ClaudeAgentOptions\<close> instances constructed one after the other, from any
  arguments (also from the same caller-supplied mapping), own different dicts: a mutation
  of one instance's \<open>env\<close> after construction changes neither the content of the other
  instance's \<open>env\<close> nor any value resolved from it, since construction copies the
  caller's mapping into a new dict.
\<close>

theorem instances_independent:
  assumes c1: "ClaudeAgentOptions_init k1 u1 i1 e1 m1 s = (opts1, s1)"
    and later: "next_addr s1 \<le> next_addr t"
    and c2: "ClaudeAgentOptions_init k2 u2 i2 e2 m2 t = (opts2, t2)"
  shows "env opts1 \<noteq> env opts2 \<and>
    heap (mutate_dict (env opts1) d t2) (env opts2) = heap t2 (env opts2) \<and>
    fst (resolve_env key (Some (env opts2)) dflt (mutate_dict (env opts1) d t2)) =
      fst (resolve_env key (Some (env opts2)) dflt t2) \<and>
    heap (mutate_dict (env opts2) d t2) (env opts1) = heap t2 (env opts1) \<and>
    fst (resolve_env key (Some (env opts1)) dflt (mutate_dict (env opts2) d t2)) =
      fst (resolve_env key (Some (env opts1)) dflt t2)"
proof -
  from c1 have a1: "env opts1 = next_addr s" "next_addr s1 = Suc (next_addr s)"
    by (auto simp: ClaudeAgentOptions_init_def new_dict_def)
  from c2 have a2: "env opts2 = next_addr t"
    by (auto simp: ClaudeAgentOptions_init_def new_dict_def)
  from a1 a2 later have ne: "env opts1 \<noteq> env opts2" by simp
  then show ?thesis
    by (simp add: mutate_dict_def resolve_env_def)
qed

theorem instances_independent_witness:
  "env (fst (ClaudeAgentOptions_init (Some (ascii ''key-instance-1'')) None False (Some 0) None
              caller_state))
     \<noteq> env (fst (ClaudeAgentOptions_init (Some (ascii ''key-instance-2'')) None False (Some 0) None
           (snd (ClaudeAgentOptions_init (Some (ascii ''key-instance-1'')) None False (Some 0) None
                  caller_state)))) \<and>
   fst (resolve_env (ascii ''SOME_OTHER_VAR'') (Some 2) (ascii ''default_val'')
         (mutate_dict 1 [(ascii ''SOME_OTHER_VAR'', ascii ''changed'')]
           (snd (ClaudeAgentOptions_init (Some (ascii ''key-instance-2'')) None False (Some 0) None
             (snd (ClaudeAgentOptions_init (Some (ascii ''key-instance-1'')) None False (Some 0)
                    None caller_state))))))
     = Inr (ascii ''value'')"
proof -
  let ?c1 = "ClaudeAgentOptions_init (Some (ascii ''key-instance-1'')) None False (Some 0) None
               caller_state"
  let ?c2 = "ClaudeAgentOptions_init (Some (ascii ''key-instance-2'')) None False (Some 0) None
               (snd ?c1)"
  have c1: "?c1 = (fst ?c1, snd ?c1)" by simp
  have c2: "?c2 = (fst ?c2, snd ?c2)" by simp
  have later: "next_addr (snd ?c1) \<le> next_addr (snd ?c1)" by simp
  have e1: "env (fst ?c1) = 1"
    by (simp add: ClaudeAgentOptions_init_def new_dict_def caller_state_def)
  have e2: "env (fst ?c2) = 2"
    by (simp add: ClaudeAgentOptions_init_def new_dict_def caller_state_def)
  have r: "fst (resolve_env (ascii ''SOME_OTHER_VAR'') (Some 2) (ascii ''default_val'') (snd ?c2))
      = Inr (ascii ''value'')"
    by (simp add: ClaudeAgentOptions_init_def new_dict_def caller_state_def one_dict_def
        resolve_env_def dict_bool_def dict_contains_def dict_getitem_def)
  from instances_independent [OF c1 later c2, of "[(ascii ''SOME_OTHER_VAR'', ascii ''changed'')]"
      "ascii ''SOME_OTHER_VAR''" "ascii ''default_val''"] e1 e2 r
  show ?thesis by simp
qed

text \<open>
  The instance does not keep the caller's reference: a later mutation of the caller's
  mapping is not seen through the instance.
\<close>

lemma caller_mapping_copied:
  assumes "ClaudeAgentOptions_init k u i (Some e) m s = (opts, s')" and "e < next_addr s"
  shows "env opts \<noteq> e \<and> heap s' (env opts) = heap s e \<and>
     heap (mutate_dict e d s') (env opts) = heap s e"
  using assms by (auto simp: ClaudeAgentOptions_init_def new_dict_def mutate_dict_def)

text \<open>
  C10. A \<^verbatim>\<open>ClaudeAgentOptions\<close> can hold an explicit credential and a different
  credential entry in its \<open>env\<close> mapping at once: construction stores the \<open>api_key\<close>
  argument and the mapping's entry for \<^verbatim>\<open>ANTHROPIC_API_KEY\<close> both as given, and
  applies no precedence between them.
\<close>

theorem construction_keeps_both_credentials:
  assumes "map_of (heap s e) (ascii ''ANTHROPIC_API_KEY'') = Some v"
    and "ClaudeAgentOptions_init (Some k) u i (Some e) m s = (opts, s')"
  shows "api_key opts = Some k \<and>
         dict_getitem (heap s' (env opts)) (ascii ''ANTHROPIC_API_KEY'') = Inr v \<and>
         heap s' (env opts) = heap s e"
  using assms by (auto simp: ClaudeAgentOptions_init_def new_dict_def dict_getitem_def)

theorem construction_keeps_both_credentials_witness:
  "api_key (fst (ClaudeAgentOptions_init (Some (ascii ''explicit-key'')) None False (Some 0) None
                  caller_state))
     = Some (ascii ''explicit-key'') \<and>
   dict_getitem
     (heap (snd (ClaudeAgentOptions_init (Some (ascii ''explicit-key'')) None False (Some 0) None
                  caller_state))
       (env (fst (ClaudeAgentOptions_init (Some (ascii ''explicit-key'')) None False (Some 0) None
                   caller_state))))
     (ascii ''ANTHROPIC_API_KEY'') = Inr (ascii ''env-dict-key'')"
proof -
  let ?c = "ClaudeAgentOptions_init (Some (ascii ''explicit-key'')) None False (Some 0) None
              caller_state"
  have h: "map_of (heap caller_state 0) (ascii ''ANTHROPIC_API_KEY'') = Some (ascii ''env-dict-key'')"
    by (simp add: caller_state_def one_dict_def ascii_def)
  have c: "?c = (fst ?c, snd ?c)" by simp
  from construction_keeps_both_credentials [OF h c] show ?thesis by blast
qed

section \<open>Properties of the stream close timeout\<close>

text \<open>
  C9. The stream close timeout variable is read as milliseconds and converted to
  seconds when it is resolved: for every numeric string of value \<open>n\<close> that the environment
  supplies for \<^verbatim>\<open>CLAUDE_CODE_STREAM_CLOSE_TIMEOUT\<close>, the resolved timeout is \<open>n / 1000\<close>
  seconds (\<^verbatim>\<open>"90000"\<close> gives 90 seconds).
\<close>

theorem timeout_milliseconds_to_seconds:
  assumes "options_env = None \<or>
           (\<exists>a. options_env = Some a \<and>
              \<not> dict_contains (ascii ''CLAUDE_CODE_STREAM_CLOSE_TIMEOUT'') (heap s a))"
    and "Environ_getitem (os_environ s) (ascii ''CLAUDE_CODE_STREAM_CLOSE_TIMEOUT'') = Inr str"
    and "to_number str = Some n"
  shows "resolve_stream_close_timeout to_number None options_env s = Inr (n / 1000)"
  using assms
  by (auto simp: resolve_stream_close_timeout_def resolve_env_def Environ_get_def)

theorem timeout_milliseconds_to_seconds_witness:
  "resolve_stream_close_timeout decimal_number None None caller_state = Inr 90"
proof -
  have a: "None = None \<or>
     (\<exists>a. (None :: addr option) = Some a \<and>
        \<not> dict_contains (ascii ''CLAUDE_CODE_STREAM_CLOSE_TIMEOUT'') (heap caller_state a))"
    by simp
  have b: "Environ_getitem (os_environ caller_state) (ascii ''CLAUDE_CODE_STREAM_CLOSE_TIMEOUT'')
      = Inr (ascii ''90000'')"
    by (simp add: caller_state_def Environ_getitem_def ascii_environ_def ascii_encodekey_def
        ascii_decodevalue_def ascii_def)
  have c: "decimal_number (ascii ''90000'') = Some 90000"
    by (simp add: decimal_number_def digit_def ascii_def)
  from timeout_milliseconds_to_seconds
      [where to_number = decimal_number and str = "ascii ''90000''" and n = 90000, OF a b c]
  show ?thesis by simp
qed

end
